theory Spec2Isabelle
  imports Main
begin

section \<open>Python values\<close>

text \<open>
  The values that the handlers of \<^verbatim>\<open>main.py\<close> store, return and print: \<^verbatim>\<open>None\<close>,
  booleans, unbounded integers, strings, tuples, and dictionaries in insertion order
  (an association list of keys and values). A character stands for one code point
  in the range U+0000 to U+00FF.
\<close>

datatype pyval =
    PNone
  | PBool bool
  | PInt int
  | PStr string
  | PTuple "pyval list"
  | PDict "(pyval \<times> pyval) list"

text \<open>
  Exceptions. \<open>Raised c msg\<close> is a \<^verbatim>\<open>raise\<close> statement of the source, of class \<open>c\<close>
  with the message the source builds. \<open>Builtin c\<close> is an exception of class \<open>c\<close> raised
  by the interpreter or by a called library; its wording varies between versions and is
  not modelled. \<open>LookupFailure\<close> is the outcome of the library's \<^verbatim>\<open>cmd\<close> on a handler
  that has no registered command.
\<close>

datatype exc_class =
    ValueError
  | TypeError
  | IndexError
  | AttributeError
  | FileNotFoundError
  | PermissionError
  | LookupFailure

datatype py_error =
    Raised exc_class string
  | Builtin exc_class

definition TAB :: char where
  "TAB = CHR 0x09"

definition NL :: char where
  "NL = CHR 0x0A"

definition CR :: char where
  "CR = CHR 0x0D"

subsection \<open>Truth value testing\<close>

fun py_truthy :: "pyval \<Rightarrow> bool" where
  "py_truthy PNone = False"
| "py_truthy (PBool b) = b"
| "py_truthy (PInt i) = (i \<noteq> 0)"
| "py_truthy (PStr s) = (s \<noteq> [])"
| "py_truthy (PTuple xs) = (xs \<noteq> [])"
| "py_truthy (PDict kvs) = (kvs \<noteq> [])"

subsection \<open>\<^verbatim>\<open>str.lower\<close>\<close>

definition lower_char :: "char \<Rightarrow> char" where
  "lower_char c =
     (let n = of_char c :: nat
      in if (65 \<le> n \<and> n \<le> 90) \<or> (192 \<le> n \<and> n \<le> 222 \<and> n \<noteq> 215)
         then char_of (n + 32) else c)"

definition py_lower :: "string \<Rightarrow> string" where
  "py_lower s = map lower_char s"

subsection \<open>\<^verbatim>\<open>str\<close> and \<^verbatim>\<open>repr\<close>\<close>

definition digit_char :: "nat \<Rightarrow> char" where
  "digit_char d = char_of (48 + d)"

function show_nat :: "nat \<Rightarrow> string" where
  "show_nat n = (if n < 10 then [digit_char n] else show_nat (n div 10) @ [digit_char (n mod 10)])"
  by pat_completeness auto
termination
  by (relation "measure (\<lambda>n. n)") auto

definition show_int :: "int \<Rightarrow> string" where
  "show_int i = (if i < 0 then CHR ''-'' # show_nat (nat (- i)) else show_nat (nat i))"

definition hex_char :: "nat \<Rightarrow> char" where
  "hex_char d = (if d < 10 then char_of (48 + d) else char_of (87 + d))"

text \<open>
  \<^verbatim>\<open>repr\<close> of a string: single quotes, unless the string holds a single quote and no
  double quote; the quote and the backslash are escaped, tab, newline and carriage
  return are written \<^verbatim>\<open>\t\<close>, \<^verbatim>\<open>\n\<close>, \<^verbatim>\<open>\r\<close>, and every other non-printable code point
  is written \<^verbatim>\<open>\xNN\<close>.
\<close>

definition printable :: "char \<Rightarrow> bool" where
  "printable c =
     (let n = of_char c :: nat
      in (32 \<le> n \<and> n < 127) \<or> (161 \<le> n \<and> n \<noteq> 173))"

definition repr_quote :: "string \<Rightarrow> char" where
  "repr_quote s = (if CHR 0x27 \<in> set s \<and> CHR 0x22 \<notin> set s then CHR 0x22 else CHR 0x27)"

definition repr_char :: "char \<Rightarrow> char \<Rightarrow> string" where
  "repr_char q c =
     (if c = q \<or> c = CHR 0x5C then [CHR 0x5C, c]
      else if c = TAB then [CHR 0x5C, CHR ''t'']
      else if c = NL then [CHR 0x5C, CHR ''n'']
      else if c = CR then [CHR 0x5C, CHR ''r'']
      else if \<not> printable c
        then [CHR 0x5C, CHR ''x'', hex_char (of_char c div 16), hex_char (of_char c mod 16)]
      else [c])"

definition repr_str :: "string \<Rightarrow> string" where
  "repr_str s = (let q = repr_quote s in q # concat (map (repr_char q) s) @ [q])"

fun join :: "string \<Rightarrow> string list \<Rightarrow> string" where
  "join sep [] = []"
| "join sep [x] = x"
| "join sep (x # y # ys) = x @ sep @ join sep (y # ys)"

fun py_repr :: "pyval \<Rightarrow> string" where
  "py_repr PNone = ''None''"
| "py_repr (PBool b) = (if b then ''True'' else ''False'')"
| "py_repr (PInt i) = show_int i"
| "py_repr (PStr s) = repr_str s"
| "py_repr (PTuple xs) =
     (case map py_repr xs of
        [r] \<Rightarrow> ''('' @ r @ '',)''
      | rs \<Rightarrow> ''('' @ join '', '' rs @ '')'')"
| "py_repr (PDict kvs) =
     ''{'' @ join '', '' (map (\<lambda>kv. py_repr (fst kv) @ '': '' @ py_repr (snd kv)) kvs) @ ''}''"

text \<open>\<^verbatim>\<open>str(v)\<close>, which is also what an f-string field \<^verbatim>\<open>{v}\<close> inserts.\<close>

definition py_str :: "pyval \<Rightarrow> string" where
  "py_str v = (case v of PStr s \<Rightarrow> s | _ \<Rightarrow> py_repr v)"

section \<open>The command-line session\<close>

text \<open>
  What \<^verbatim>\<open>main.py\<close> reads of a \<^verbatim>\<open>Command\<close> of the library: its aliases \<^verbatim>\<open>matches\<close>, its
  \<^verbatim>\<open>options\<close> dictionary, the handler it was registered for (\<^verbatim>\<open>function\<close>, here \<open>func\<close>),
  its \<^verbatim>\<open>detail\<close> line and the handler's docstring (\<^verbatim>\<open>function.__doc__\<close>).
\<close>

datatype handler =
    Uhelp | Clear | Uquit | Setname | Setage | Setitem | Settabwidth
  | Getname | Getage | Getitem | Gettabwidth | Printfile | Route | Echo

record command =
  matches :: "string list"
  options :: "string \<rightharpoonup> pyval"
  func :: handler
  detail :: string
  doc :: "string option"

text \<open>
  The global \<^verbatim>\<open>cli\<close> object: the environment store \<^verbatim>\<open>env_vars\<close>, the window \<^verbatim>\<open>title\<close>, the
  registered commands (\<^verbatim>\<open>cli.commands()\<close>) and the command being run (\<^verbatim>\<open>cli.invoking()\<close>).
\<close>

record cli_state =
  env_vars :: "string \<rightharpoonup> pyval"
  title :: string
  commands :: "command list"
  invoking :: "command option"

definition DEFAULT_TABWIDTH :: int where
  "DEFAULT_TABWIDTH = 4"

definition initial_env_vars :: "string \<rightharpoonup> pyval" where
  "initial_env_vars =
     [''username'' \<mapsto> PNone, ''age'' \<mapsto> PNone, ''user-items'' \<mapsto> PDict [],
      ''tabwidth'' \<mapsto> PInt DEFAULT_TABWIDTH]"

text \<open>\<^verbatim>\<open>cmd(cli, f)\<close>: the position of the command registered for handler \<open>f\<close>.\<close>

fun find_cmd :: "handler \<Rightarrow> command list \<Rightarrow> nat option" where
  "find_cmd f [] = None"
| "find_cmd f (c # cs) = (if func c = f then Some 0 else map_option Suc (find_cmd f cs))"

definition cmd :: "cli_state \<Rightarrow> handler \<Rightarrow> nat option" where
  "cmd st f = find_cmd f (commands st)"

text \<open>\<^verbatim>\<open>c.options[k] = v\<close> and \<^verbatim>\<open>c.options.pop(k, None)\<close> on the command at position \<open>i\<close>.\<close>

definition set_option :: "cli_state \<Rightarrow> nat \<Rightarrow> string \<Rightarrow> pyval \<Rightarrow> cli_state" where
  "set_option st i k v =
     st\<lparr>commands := (commands st)[i := (commands st ! i)\<lparr>options := (options (commands st ! i))(k \<mapsto> v)\<rparr>]\<rparr>"

definition pop_option :: "cli_state \<Rightarrow> nat \<Rightarrow> string \<Rightarrow> cli_state" where
  "pop_option st i k =
     st\<lparr>commands := (commands st)[i := (commands st ! i)\<lparr>options := (options (commands st ! i))(k := None)\<rparr>]\<rparr>"

subsection \<open>\<^verbatim>\<open>parse_bool\<close>\<close>

definition falsy :: "string list" where
  "falsy = [''no'', ''false'', ''negative'', ''deny'']"

definition truthy :: "string list" where
  "truthy = [''yes'', ''true'', ''positive'', ''allow'']"

definition parse_bool_message :: string where
  "parse_bool_message =
     ''Parsing bool must be falsy='' @ py_repr (PTuple (map PStr falsy)) @
     '' or truthy='' @ py_repr (PTuple (map PStr truthy))"

definition parse_bool :: "string \<Rightarrow> py_error + bool" where
  "parse_bool entry =
     (let entry = py_lower entry
      in if entry \<in> set falsy then Inr False
         else if entry \<in> set truthy then Inr True
         else Inl (Raised ValueError parse_bool_message))"

subsection \<open>The setters and getters\<close>

text \<open>
  A handler takes the session state and returns its value with the state it leaves.
  A handler that can raise returns \<open>Inl\<close> of the exception instead of a value.
\<close>

definition setname :: "cli_state \<Rightarrow> string \<Rightarrow> pyval \<times> cli_state" where
  "setname st name =
     (let st1 = st\<lparr>env_vars := (env_vars st)(''username'' \<mapsto> PStr name)\<rparr>;
          st2 = (if name \<noteq> [] then st1\<lparr>title := name @ ''@CLI App''\<rparr>
                 else st1\<lparr>title := ''CLI App''\<rparr>)
      in (PStr name, st2))"

definition setage :: "cli_state \<Rightarrow> int \<Rightarrow> pyval \<times> cli_state" where
  "setage st age = (PInt age, st\<lparr>env_vars := (env_vars st)(''age'' \<mapsto> PInt age)\<rparr>)"

definition setitem :: "cli_state \<Rightarrow> string \<Rightarrow> string option \<Rightarrow> pyval \<times> cli_state" where
  "setitem st key val =
     (let v = (case val of None \<Rightarrow> PNone | Some s \<Rightarrow> PStr s);
          st1 = st\<lparr>env_vars := (env_vars st)(key \<mapsto> v)\<rparr>
      in if key \<in> dom (env_vars st)
         then (PStr (''Overwritten as '' @ key @ '':'' @ py_str v), st1)
         else (PStr (key @ '':'' @ py_str v), st1))"

definition settabwidth :: "cli_state \<Rightarrow> int \<Rightarrow> pyval \<times> cli_state" where
  "settabwidth st width =
     (if width \<le> 0 then (PStr ''Error, tabwidth must be greater than 0'', st)
      else (PNone, st\<lparr>env_vars := (env_vars st)(''tabwidth'' \<mapsto> PInt 4)\<rparr>))"

definition getname :: "cli_state \<Rightarrow> pyval \<times> cli_state" where
  "getname st =
     (case env_vars st ''username'' of
        None \<Rightarrow> (PStr [], st)
      | Some v \<Rightarrow> if v = PNone then (PStr [], st) else (v, st))"

definition getage :: "cli_state \<Rightarrow> pyval \<times> cli_state" where
  "getage st =
     (case env_vars st ''age'' of
        None \<Rightarrow> (PStr [], st)
      | Some v \<Rightarrow> if v = PNone then (PStr [], st) else (v, st))"

definition gettabwidth :: "cli_state \<Rightarrow> pyval \<times> cli_state" where
  "gettabwidth st =
     (case env_vars st ''tabwidth'' of
        None \<Rightarrow>
          (PInt DEFAULT_TABWIDTH,
           st\<lparr>env_vars := (env_vars st)(''tabwidth'' \<mapsto> PInt DEFAULT_TABWIDTH)\<rparr>)
      | Some v \<Rightarrow> (v, st))"

subsection \<open>\<^verbatim>\<open>getitem\<close>\<close>

text \<open>
  Iteration: a string yields its characters, a tuple its elements, a dictionary its
  keys; the other values are not iterable.
\<close>

fun py_iter :: "pyval \<Rightarrow> pyval list option" where
  "py_iter (PStr s) = Some (map (\<lambda>c. PStr [c]) s)"
| "py_iter (PTuple xs) = Some xs"
| "py_iter (PDict kvs) = Some (map fst kvs)"
| "py_iter _ = None"

text \<open>
  The target list \<^verbatim>\<open>key, value\<close> of the \<^verbatim>\<open>for\<close> statement: the element is iterated and
  must yield exactly two values.
\<close>

definition unpack2 :: "pyval \<Rightarrow> py_error + pyval \<times> pyval" where
  "unpack2 v =
     (case py_iter v of
        None \<Rightarrow> Inl (Builtin TypeError)
      | Some [a, b] \<Rightarrow> Inr (a, b)
      | Some _ \<Rightarrow> Inl (Builtin ValueError))"

fun getitem_loop :: "pyval list \<Rightarrow> string \<Rightarrow> py_error + string" where
  "getitem_loop [] message = Inr message"
| "getitem_loop (x # xs) message =
     (case unpack2 x of
        Inl e \<Rightarrow> Inl e
      | Inr (key, val) \<Rightarrow> getitem_loop xs (message @ [TAB] @ py_str key @ '':'' @ py_str val))"

definition getitem :: "cli_state \<Rightarrow> string option \<Rightarrow> (py_error + pyval) \<times> cli_state" where
  "getitem st key =
     (case env_vars st ''user-items'' of
        None \<Rightarrow> (Inr (PStr []), st)
      | Some items \<Rightarrow>
          (case key of
             None \<Rightarrow>
               (case py_iter items of
                  None \<Rightarrow> (Inl (Builtin TypeError), st)
                | Some xs \<Rightarrow> (map_sum id PStr (getitem_loop xs [NL]), st))
           | Some k \<Rightarrow>
               (case env_vars st k of
                  None \<Rightarrow> (Inr (PStr (''Key '' @ k @ '' does not exist'')), st)
                | Some v \<Rightarrow> (Inr v, st))))"

subsection \<open>\<^verbatim>\<open>uhelp\<close>\<close>

definition doc_text :: "command \<Rightarrow> string" where
  "doc_text c = (case doc c of None \<Rightarrow> [] | Some d \<Rightarrow> d)"

text \<open>
  The loop over \<^verbatim>\<open>enumerate(cli.commands())\<close>, with the running index \<open>i\<close> and the
  description built so far.
\<close>

fun uhelp_loop :: "bool \<Rightarrow> int \<Rightarrow> int \<Rightarrow> command list \<Rightarrow> string \<Rightarrow> string" where
  "uhelp_loop full lst i [] desc = desc"
| "uhelp_loop full lst i (c # cs) desc =
     (let d1 = desc @ [TAB] @ detail c;
          d2 = (if full then d1 @ '' | '' @ doc_text c else d1);
          d3 = (if i \<noteq> lst then d2 @ [NL] else d2)
      in uhelp_loop full lst (i + 1) cs d3)"

text \<open>
  \<^verbatim>\<open>cli.match_command\<close> belongs to the library, so its outcome on a name is a parameter:
  it raises, or returns \<^verbatim>\<open>None\<close>, or returns a command. The flag \<^verbatim>\<open>full\<close> is an optional
  boolean, true only when it is \<^verbatim>\<open>True\<close>.
\<close>

definition uhelp ::
  "(string \<Rightarrow> py_error + command option) \<Rightarrow> cli_state \<Rightarrow> string option \<Rightarrow> bool option
     \<Rightarrow> (py_error + pyval) \<times> cli_state" where
  "uhelp match_command st command_name full =
     (case cmd st Uhelp of
        None \<Rightarrow> (Inl (Builtin LookupFailure), st)
      | Some help_cmd \<Rightarrow>
          (case command_name of
             None \<Rightarrow>
               (let st1 = set_option st help_cmd ''title'' (PStr ''Help'');
                    st2 = set_option st1 help_cmd ''delimiter'' (PStr [NL]);
                    lst = int (length (commands st2)) - 1
                in (Inr (PStr (uhelp_loop (full = Some True) lst 0 (commands st2) [])), st2))
           | Some name \<Rightarrow>
               (case match_command name of
                  Inl e \<Rightarrow> (Inl e, st)
                | Inr found \<Rightarrow>
                    (let st1 = set_option st help_cmd ''title'' (PStr ''Help for'');
                         st2 = set_option st1 help_cmd ''delimiter'' (PStr '' '')
                     in case found of
                          None \<Rightarrow> (Inl (Builtin AttributeError), st2)
                        | Some c \<Rightarrow>
                            (Inr (PStr (detail c @
                               (if full = Some True then '' | '' @ doc_text c else []))), st2)))))"

subsection \<open>\<^verbatim>\<open>printfile\<close>\<close>

text \<open>
  The platform as the handler sees it: \<^verbatim>\<open>os.path.isfile\<close>; the outcome of opening a path
  with an encoding and calling \<^verbatim>\<open>readlines\<close>, which is the list of lines or the exception
  that \<^verbatim>\<open>open\<close> or the read raised; and \<open>log10_ceil n\<close>, the value of
  \<^verbatim>\<open>math.ceil(math.log10(n))\<close> for \<open>n \<ge> 1\<close> as the platform's floating-point arithmetic
  computes it. For \<open>n = 0\<close> the logarithm raises \<^verbatim>\<open>ValueError\<close>, which \<open>printfile\<close> below
  handles before it reads \<open>log10_ceil\<close>.
\<close>

record os_world =
  isfile :: "string \<Rightarrow> bool"
  readlines :: "string \<Rightarrow> string option \<Rightarrow> py_error + string list"
  log10_ceil :: "nat \<Rightarrow> nat"

text \<open>\<^verbatim>\<open>os.path.basename\<close> (POSIX): what follows the last slash.\<close>

definition basename :: "string \<Rightarrow> string" where
  "basename path = rev (takeWhile (\<lambda>c. c \<noteq> CHR ''/'') (rev path))"

text \<open>
  The exact ceiling of the decimal logarithm, on the integers: the least \<open>d\<close> with
  \<open>n \<le> 10 ^ d\<close>. The floating-point \<open>log10_ceil\<close> of a platform agrees with it on every
  line count a file can have in practice (the two part above \<open>10 ^ 15\<close>, where the
  logarithm of \<open>10 ^ 15 + 1\<close> rounds to 15); the concrete platform below uses it.
\<close>

function ceil_log10 :: "nat \<Rightarrow> nat" where
  "ceil_log10 n = (if n \<le> 1 then 0 else Suc (ceil_log10 ((n + 9) div 10)))"
  by pat_completeness auto
termination
  by (relation "measure (\<lambda>n. n)") auto

text \<open>\<^verbatim>\<open>format(idx, f"0{width}")\<close>: the decimal digits, padded with zeros on the left.\<close>

definition format_zero :: "nat \<Rightarrow> nat \<Rightarrow> string" where
  "format_zero idx width =
     replicate (width - length (show_nat idx)) (CHR ''0'') @ show_nat idx"

definition line_number :: "bool \<Rightarrow> nat \<Rightarrow> nat \<Rightarrow> string" where
  "line_number line_no max_digit_count idx =
     (if \<not> line_no then [] else format_zero idx max_digit_count @ ''|'')"

fun printfile_loop :: "bool \<Rightarrow> nat \<Rightarrow> nat \<Rightarrow> string list \<Rightarrow> string \<Rightarrow> string" where
  "printfile_loop line_no m i [] output = output"
| "printfile_loop line_no m i (l # ls) output =
     printfile_loop line_no m (Suc i) ls (output @ line_number line_no m i @ l)"

definition printfile ::
  "os_world \<Rightarrow> cli_state \<Rightarrow> string \<Rightarrow> bool \<Rightarrow> string option \<Rightarrow> (py_error + pyval) \<times> cli_state" where
  "printfile w st path line_no encoding =
     (case cmd st Printfile of
        None \<Rightarrow> (Inl (Builtin LookupFailure), st)
      | Some print_cmd \<Rightarrow>
          (let st1 = pop_option st print_cmd ''title''
           in if \<not> isfile w path
              then (Inl (Raised FileNotFoundError (''File '' @ path @ '' does not exist'')), st1)
              else
                (let st2 = set_option st1 print_cmd ''title'' (PStr (basename path))
                 in case readlines w path encoding of
                      Inl e \<Rightarrow> (Inl e, st2)
                    | Inr lines \<Rightarrow>
                        if length lines = 0 then (Inl (Builtin ValueError), st2)
                        else (Inr (PStr (printfile_loop line_no (log10_ceil w (length lines)) 0 lines [])),
                              st2))))"

section \<open>The two renderers\<close>

text \<open>
  What a renderer writes: each \<^verbatim>\<open>print\<close> call with its text, and the call of
  \<^verbatim>\<open>traceback.print_exc\<close>, which writes the stack trace of the exception being handled.
\<close>

datatype event = Print string | Print_exc

text \<open>
  An exception as \<^verbatim>\<open>exception_handler\<close> reads it: whether its class is a subclass of the
  library's \<^verbatim>\<open>CLIError\<close>, its \<^verbatim>\<open>str\<close>, and its \<^verbatim>\<open>__cause__\<close>.
\<close>

datatype exn = Exn (is_cli_error: bool) (exn_str: string) (exn_cause: "exn option")

definition cause_lines :: "exn \<Rightarrow> event list" where
  "cause_lines e =
     (case exn_cause e of
        None \<Rightarrow> []
      | Some c \<Rightarrow> [Print (''! Cause: '' @ exn_str c)])"

definition exception_handler :: "cli_state \<Rightarrow> exn \<Rightarrow> py_error + event list" where
  "exception_handler st exception =
     (if is_cli_error exception then
        (case invoking st of
           None \<Rightarrow>
             Inr (Print (''! An error occured: '' @ exn_str exception) # cause_lines exception)
         | Some c \<Rightarrow>
             (case matches c of
                [] \<Rightarrow> Inl (Builtin IndexError)
              | m # _ \<Rightarrow>
                  Inr (Print (''! An error occured running command '' @ m @ '': '' @
                         exn_str exception) # cause_lines exception)))
      else Inr [Print (''Unkown exception was raised: '' @ exn_str exception), Print_exc])"

definition return_value_handler :: "command \<Rightarrow> pyval \<Rightarrow> py_error + event list" where
  "return_value_handler command val =
     (if (case options command ''ignore-value'' of None \<Rightarrow> False | Some v \<Rightarrow> py_truthy v)
      then Inr []
      else
        (case matches command of
           [] \<Rightarrow> Inl (Builtin IndexError)
         | m # _ \<Rightarrow>
             (let title = (case options command ''title'' of None \<Rightarrow> PStr m | Some t \<Rightarrow> t);
                  delimiter = (case options command ''delimiter'' of None \<Rightarrow> PStr ''->'' | Some d \<Rightarrow> d)
              in if val = PNone
                 then Inr [Print (py_str title @ py_str delimiter @ ''Done!'')]
                 else Inr [Print (py_str title @ py_str delimiter @ py_str val)])))"

section \<open>A concrete session\<close>

text \<open>
  Three of the commands as \<^verbatim>\<open>main.py\<close> registers them (aliases, options, docstring), and
  the session state at start-up; \<open>demo_items kvs\<close> is that state with the dictionary \<open>kvs\<close>
  stored under \<^verbatim>\<open>user-items\<close>. The \<^verbatim>\<open>detail\<close> line of a command is computed by the
  library; here it is the command's first alias. \<open>demo_match_command\<close> resolves a name to
  the command that has it among its aliases, ignoring case, and to \<^verbatim>\<open>None\<close> otherwise.
\<close>

definition help_command :: command where
  "help_command =
     \<lparr>matches = [''help''], options = Map.empty, func = Uhelp, detail = ''help'',
      doc = Some ([NL] @ ''        Show help for `command_name` if supplied, show help for all of not supplied'' @
                  [NL] @ ''    '')\<rparr>"

definition uquit_command :: command where
  "uquit_command =
     \<lparr>matches = [''quit'', ''exit'', ''q''], options = [''ignore-value'' \<mapsto> PBool True],
      func = Uquit, detail = ''quit'', doc = Some '' Exit the program''\<rparr>"

definition printfile_command :: command where
  "printfile_command =
     \<lparr>matches = [''printfile'', ''print''], options = [''delimiter'' \<mapsto> PStr ('':'' @ [NL])],
      func = Printfile, detail = ''printfile'',
      doc = Some ([NL] @ ''        Show contents of a file'' @
                  [NL] @ ''        line_no -> show line numbers'' @
                  [NL] @ ''        encoding -> Text encoding'' @
                  [NL] @ ''    '')\<rparr>"

definition demo_commands :: "command list" where
  "demo_commands = [help_command, uquit_command, printfile_command]"

definition demo_state :: cli_state where
  "demo_state =
     \<lparr>env_vars = initial_env_vars, title = ''CLI App'', commands = demo_commands,
      invoking = None\<rparr>"

definition demo_items :: "(pyval \<times> pyval) list \<Rightarrow> cli_state" where
  "demo_items kvs = demo_state\<lparr>env_vars := (env_vars demo_state)(''user-items'' \<mapsto> PDict kvs)\<rparr>"

definition demo_match_command :: "string \<Rightarrow> py_error + command option" where
  "demo_match_command name = Inr (find (\<lambda>c. py_lower name \<in> set (matches c)) demo_commands)"

text \<open>
  A platform with one empty file, one file of two lines and one file that cannot be
  opened.
\<close>

definition demo_world :: os_world where
  "demo_world =
     \<lparr>isfile = (\<lambda>p. p = ''empty.txt'' \<or> p = ''dir/two.txt'' \<or> p = ''locked.txt''),
      readlines = (\<lambda>p enc. if p = ''empty.txt'' then Inr []
                              else if p = ''dir/two.txt'' then Inr [''a'' @ [NL], ''b'' @ [NL]]
                              else if p = ''locked.txt'' then Inl (Builtin PermissionError)
                              else Inl (Builtin FileNotFoundError)),
      log10_ceil = ceil_log10\<rparr>"

section \<open>Facts about the registry and the loops\<close>

lemma find_cmd_Some: "find_cmd f cs = Some i \<Longrightarrow> i < length cs \<and> func (cs ! i) = f"
proof (induction cs arbitrary: i)
  case Nil
  then show ?case by simp
next
  case (Cons c cs)
  show ?case
  proof (cases "func c = f")
    case True
    with Cons.prems show ?thesis by simp
  next
    case False
    with Cons.prems obtain j where j: "find_cmd f cs = Some j" and i: "i = Suc j"
      by auto
    from Cons.IH [OF j] i show ?thesis by simp
  qed
qed

lemma set_option_twice:
  assumes "i < length (commands st)"
  shows "set_option (set_option st i k1 v1) i k2 v2 =
     st\<lparr>commands := (commands st)[i := (commands st ! i)
        \<lparr>options := (options (commands st ! i))(k1 \<mapsto> v1, k2 \<mapsto> v2)\<rparr>]\<rparr>"
  using assms by (simp add: set_option_def)

lemma unpack2_Inr: "unpack2 v = Inr (a, b) \<longleftrightarrow> py_iter v = Some [a, b]"
  by (auto simp add: unpack2_def split: option.splits list.splits)

lemma getitem_loop_raises:
  assumes "x \<in> set xs" and "\<forall>a b. py_iter x \<noteq> Some [a, b]"
  shows "\<exists>e. getitem_loop xs message = Inl e"
  using assms
proof (induction xs arbitrary: message)
  case Nil
  then show ?case by simp
next
  case (Cons y ys)
  show ?case
  proof (cases "unpack2 y")
    case (Inl e)
    then show ?thesis by simp
  next
    case (Inr p)
    obtain a b where p: "p = (a, b)" by (cases p)
    with Inr Cons.prems have "x \<noteq> y"
      by (auto simp add: unpack2_Inr)
    with Cons.prems have "x \<in> set ys" by simp
    from Cons.IH [OF this Cons.prems(2)] Inr p show ?thesis by simp
  qed
qed

lemma getitem_loop_lists:
  "map py_iter xs = map (\<lambda>(a, b). Some [a, b]) ps \<Longrightarrow>
   getitem_loop xs message =
     Inr (message @ concat (map (\<lambda>(a, b). [TAB] @ py_str a @ '':'' @ py_str b) ps))"
proof (induction xs arbitrary: ps message)
  case Nil
  then show ?case by simp
next
  case (Cons x xs)
  from Cons.prems obtain a b qs where ps: "ps = (a, b) # qs"
    and x: "py_iter x = Some [a, b]"
    and rest: "map py_iter xs = map (\<lambda>(a, b). Some [a, b]) qs"
    by (cases ps) auto
  from x have "unpack2 x = Inr (a, b)"
    by (simp add: unpack2_Inr)
  with Cons.IH [OF rest] ps show ?case by simp
qed

lemma getitem_loop_first_bad:
  assumes "\<forall>x \<in> set pre. \<exists>a b. py_iter x = Some [a, b]"
    and "\<forall>a b. py_iter k \<noteq> Some [a, b]"
  shows "getitem_loop (pre @ k # post) message =
     Inl (if py_iter k = None then Builtin TypeError else Builtin ValueError)"
  using assms(1)
proof (induction pre arbitrary: message)
  case Nil
  from assms(2) show ?case
    by (auto simp add: unpack2_def split: option.splits list.splits)
next
  case (Cons x pre)
  from Cons.prems obtain a b where "py_iter x = Some [a, b]" by auto
  then have "unpack2 x = Inr (a, b)" by (simp add: unpack2_Inr)
  moreover from Cons.prems have "\<forall>x \<in> set pre. \<exists>a b. py_iter x = Some [a, b]" by simp
  ultimately show ?case using Cons.IH by simp
qed

lemma printfile_loop_enumerate:
  "printfile_loop line_no m i ls out =
     out @ concat (map (\<lambda>(idx, line). line_number line_no m idx @ line) (enumerate i ls))"
  by (induction ls arbitrary: i out) simp_all

lemma demo_cmd_Printfile: "cmd demo_state Printfile = Some 2"
  by (simp add: cmd_def demo_state_def demo_commands_def help_command_def uquit_command_def
      printfile_command_def)

lemma demo_two_lines:
  "concat (map (\<lambda>(idx, line). line_number True (ceil_log10 2) idx @ line)
     (enumerate 0 [''a'' @ [NL], ''b'' @ [NL]])) = ''0|a'' @ [NL] @ ''1|b'' @ [NL]"
  by code_simp

text \<open>
  The options the help handler sets reach the value renderer: after a call without a
  command name, the returned description is printed under the title \<^verbatim>\<open>Help\<close>, on a line
  of its own.
\<close>

lemma uhelp_renders_title:
  assumes "cmd st Uhelp = Some i"
    and "matches (commands st ! i) = m # ms"
    and "options (commands st ! i) ''ignore-value'' = None"
    and "uhelp match_command st None full = (Inr v, st')"
  shows "return_value_handler (commands st' ! i) v = Inr [Print (''Help'' @ [NL] @ py_str v)]"
proof -
  from assms(1) have i: "i < length (commands st)"
    using find_cmd_Some [of Uhelp "commands st" i] by (simp add: cmd_def)
  from assms(1,4) have st': "st' = st\<lparr>commands := (commands st)[i := (commands st ! i)
               \<lparr>options := (options (commands st ! i))
                  (''title'' \<mapsto> PStr ''Help'', ''delimiter'' \<mapsto> PStr [NL])\<rparr>]\<rparr>"
    and v: "v \<noteq> PNone"
    by (auto simp add: uhelp_def Let_def set_option_twice [OF i])
  show ?thesis
    using i assms(2,3) v by (simp add: st' return_value_handler_def py_str_def)
qed

text \<open>\<open>ceil_log10 n\<close> is the least exponent \<open>d\<close> with \<open>n \<le> 10 ^ d\<close>.\<close>

lemma ceil_log10_upper: "0 < n \<Longrightarrow> n \<le> 10 ^ ceil_log10 n"
proof (induction n rule: ceil_log10.induct)
  case (1 n)
  show ?case
  proof (cases "n \<le> 1")
    case True
    then show ?thesis by simp
  next
    case False
    then have "0 < (n + 9) div 10" by simp
    with "1.IH" False have "(n + 9) div 10 \<le> 10 ^ ceil_log10 ((n + 9) div 10)" by simp
    then have "10 * ((n + 9) div 10) \<le> 10 * 10 ^ ceil_log10 ((n + 9) div 10)" by simp
    moreover have "n \<le> 10 * ((n + 9) div 10)" by presburger
    ultimately show ?thesis using False by (subst ceil_log10.simps) simp
  qed
qed

lemma ceil_log10_least: "0 < n \<Longrightarrow> n \<le> 10 ^ d \<Longrightarrow> ceil_log10 n \<le> d"
proof (induction n arbitrary: d rule: ceil_log10.induct)
  case (1 n)
  show ?case
  proof (cases "n \<le> 1")
    case True
    then show ?thesis by simp
  next
    case False
    with "1.prems" obtain e where d: "d = Suc e"
      by (cases d) auto
    from "1.prems" d have "n \<le> 10 * 10 ^ e" by simp
    then have "(n + 9) div 10 \<le> 10 ^ e" by presburger
    moreover from False have "0 < (n + 9) div 10" by simp
    ultimately have "ceil_log10 ((n + 9) div 10) \<le> e"
      using "1.IH" False by simp
    with False d show ?thesis by (subst ceil_log10.simps) simp
  qed
qed

lemma demo_cmd_Uhelp: "cmd demo_state Uhelp = Some 0"
  by (simp add: cmd_def demo_state_def demo_commands_def help_command_def)

lemma py_lower_Q: "py_lower ''Q'' = ''q''"
  by code_simp

lemma demo_match_Q: "demo_match_command ''Q'' = Inr (Some uquit_command)"
  by (simp add: demo_match_command_def demo_commands_def py_lower_Q)
    (simp add: help_command_def uquit_command_def)

lemma py_lower_Allow: "py_lower ''Allow'' = ''allow''" by code_simp
lemma py_lower_maybe: "py_lower ''maybe'' = ''maybe''" by code_simp
lemma py_lower_NO: "py_lower ''NO'' = ''no''" by code_simp

section \<open>The value renderer\<close>

text \<open>
  C1. For a command with at least one alias whose \<^verbatim>\<open>ignore-value\<close> option is absent or
  not true (in Python's truth value testing, as the source tests it), the value renderer
  makes one \<^verbatim>\<open>print\<close> call: title, delimiter, then \<^verbatim>\<open>Done!\<close> if the value is \<^verbatim>\<open>None\<close> and the
  value otherwise. The title is the option \<^verbatim>\<open>title\<close> if present and the first alias
  otherwise; the delimiter is the option \<^verbatim>\<open>delimiter\<close> if present and \<^verbatim>\<open>->\<close> otherwise.
\<close>

theorem return_value_handler_renders:
  assumes "matches command = m # ms"
    and "\<not> (case options command ''ignore-value'' of None \<Rightarrow> False | Some v \<Rightarrow> py_truthy v)"
  shows "return_value_handler command val =
     Inr [Print (py_str (case options command ''title'' of None \<Rightarrow> PStr m | Some t \<Rightarrow> t) @
                 py_str (case options command ''delimiter'' of None \<Rightarrow> PStr ''->'' | Some d \<Rightarrow> d) @
                 (if val = PNone then ''Done!'' else py_str val))]"
  using assms by (simp add: return_value_handler_def)

theorem return_value_handler_renders_witness:
  "matches help_command = ''help'' # [] \<and>
   \<not> (case options help_command ''ignore-value'' of None \<Rightarrow> False | Some v \<Rightarrow> py_truthy v) \<and>
   return_value_handler help_command (PStr ''x'') = Inr [Print ''help->x''] \<and>
   return_value_handler help_command PNone = Inr [Print ''help->Done!'']"
  using return_value_handler_renders [of help_command "''help''" "[]" "PStr ''x''"]
    return_value_handler_renders [of help_command "''help''" "[]" PNone]
  by (simp add: help_command_def py_str_def)

text \<open>
  C2. When the options of a command hold \<^verbatim>\<open>ignore-value\<close> with a true value, the value
  renderer prints nothing, whatever the returned value is.
\<close>

theorem return_value_handler_ignores:
  assumes "options command ''ignore-value'' = Some v" and "py_truthy v"
  shows "return_value_handler command val = Inr []"
  using assms by (simp add: return_value_handler_def)

theorem return_value_handler_ignores_witness:
  "options uquit_command ''ignore-value'' = Some (PBool True) \<and>
   py_truthy (PBool True) \<and>
   return_value_handler uquit_command PNone = Inr [] \<and>
   return_value_handler uquit_command (PStr ''x'') = Inr []"
  using return_value_handler_ignores [of uquit_command "PBool True" PNone]
    return_value_handler_ignores [of uquit_command "PBool True" "PStr ''x''"]
  by (simp add: uquit_command_def)

section \<open>The boolean parser\<close>

text \<open>
  C3. \<open>parse_bool\<close> returns true when the lower-cased token is one of yes, true, positive,
  allow; false when it is one of no, false, negative, deny; and raises \<^verbatim>\<open>ValueError\<close> for
  every other token.
\<close>

theorem parse_bool_recognizes:
  "(py_lower entry \<in> {''yes'', ''true'', ''positive'', ''allow''} \<longrightarrow> parse_bool entry = Inr True) \<and>
   (py_lower entry \<in> {''no'', ''false'', ''negative'', ''deny''} \<longrightarrow> parse_bool entry = Inr False) \<and>
   (py_lower entry \<notin> {''yes'', ''true'', ''positive'', ''allow'', ''no'', ''false'', ''negative'', ''deny''}
      \<longrightarrow> parse_bool entry = Inl (Raised ValueError parse_bool_message))"
  by (auto simp add: parse_bool_def falsy_def truthy_def Let_def)

theorem parse_bool_recognizes_witness:
  "py_lower ''Allow'' \<in> {''yes'', ''true'', ''positive'', ''allow''} \<and>
   parse_bool ''Allow'' = Inr True \<and>
   py_lower ''NO'' \<in> {''no'', ''false'', ''negative'', ''deny''} \<and>
   parse_bool ''NO'' = Inr False \<and>
   py_lower ''maybe'' \<notin> {''yes'', ''true'', ''positive'', ''allow'', ''no'', ''false'', ''negative'', ''deny''} \<and>
   parse_bool ''maybe'' = Inl (Raised ValueError parse_bool_message)"
  using parse_bool_recognizes [of "''Allow''"] parse_bool_recognizes [of "''NO''"]
    parse_bool_recognizes [of "''maybe''"]
  by (simp add: py_lower_Allow py_lower_maybe py_lower_NO)

section \<open>The error renderer\<close>

text \<open>
  C4. Given an exception, and an invoking command (if any) that has an alias, the error
  renderer returns normally. For an exception of the \<^verbatim>\<open>CLIError\<close> taxonomy it prints one
  message, followed by one line for the cause when a cause is attached; for any other
  exception it prints the generic warning and then the stack trace. The stack trace is
  printed exactly when the exception is outside the taxonomy.
\<close>

theorem exception_handler_distinguishes:
  assumes "\<forall>c. invoking st = Some c \<longrightarrow> matches c \<noteq> []"
  shows "\<exists>out. exception_handler st e = Inr out \<and>
     (is_cli_error e \<longrightarrow>
        out = Print (''! An error occured'' @
                 (case invoking st of None \<Rightarrow> [] | Some c \<Rightarrow> '' running command '' @ hd (matches c)) @
                 '': '' @ exn_str e) #
              (case exn_cause e of None \<Rightarrow> [] | Some c \<Rightarrow> [Print (''! Cause: '' @ exn_str c)])) \<and>
     (\<not> is_cli_error e \<longrightarrow>
        out = [Print (''Unkown exception was raised: '' @ exn_str e), Print_exc]) \<and>
     (Print_exc \<in> set out \<longleftrightarrow> \<not> is_cli_error e)"
proof (cases "is_cli_error e")
  case False
  then show ?thesis by (simp add: exception_handler_def)
next
  case True
  show ?thesis
  proof (cases "invoking st")
    case None
    with True show ?thesis
      by (simp add: exception_handler_def cause_lines_def split: option.split)
  next
    case (Some c)
    with assms obtain m ms where "matches c = m # ms"
      by (cases "matches c") auto
    with True Some show ?thesis
      by (simp add: exception_handler_def cause_lines_def split: option.split)
  qed
qed

theorem exception_handler_distinguishes_witness:
  "invoking (demo_state\<lparr>invoking := Some uquit_command\<rparr>) = Some uquit_command \<and>
   matches uquit_command = [''quit'', ''exit'', ''q''] \<and>
   is_cli_error (Exn True ''bad'' (Some (Exn False ''why'' None))) \<and>
   exception_handler (demo_state\<lparr>invoking := Some uquit_command\<rparr>)
       (Exn True ''bad'' (Some (Exn False ''why'' None))) =
     Inr [Print ''! An error occured running command quit: bad'', Print ''! Cause: why''] \<and>
   \<not> is_cli_error (Exn False ''why'' None) \<and>
   exception_handler (demo_state\<lparr>invoking := Some uquit_command\<rparr>) (Exn False ''why'' None) =
     Inr [Print ''Unkown exception was raised: why'', Print_exc]"
  using exception_handler_distinguishes
      [of "demo_state\<lparr>invoking := Some uquit_command\<rparr>" "Exn True ''bad'' (Some (Exn False ''why'' None))"]
    exception_handler_distinguishes
      [of "demo_state\<lparr>invoking := Some uquit_command\<rparr>" "Exn False ''why'' None"]
  by (auto simp add: demo_state_def uquit_command_def)

section \<open>The handlers\<close>

text \<open>
  C5. The help handler changes the options of its own command before it returns, and
  nothing else of the session state: with no command name it returns and has set \<^verbatim>\<open>title\<close> to
  \<^verbatim>\<open>Help\<close> and \<^verbatim>\<open>delimiter\<close> to a newline; with a command name that the library resolves to a
  command it returns and has set \<^verbatim>\<open>title\<close> to \<^verbatim>\<open>Help for\<close> and \<^verbatim>\<open>delimiter\<close> to one space.
\<close>

theorem uhelp_sets_own_options:
  assumes "cmd st Uhelp = Some i"
  shows "(\<exists>v. uhelp match_command st None full =
            (Inr v, st\<lparr>commands := (commands st)[i := (commands st ! i)
               \<lparr>options := (options (commands st ! i))
                  (''title'' \<mapsto> PStr ''Help'', ''delimiter'' \<mapsto> PStr [NL])\<rparr>]\<rparr>)) \<and>
         (\<forall>name c. match_command name = Inr (Some c) \<longrightarrow>
            (\<exists>v. uhelp match_command st (Some name) full =
               (Inr v, st\<lparr>commands := (commands st)[i := (commands st ! i)
                  \<lparr>options := (options (commands st ! i))
                     (''title'' \<mapsto> PStr ''Help for'', ''delimiter'' \<mapsto> PStr '' '')\<rparr>]\<rparr>)))"
proof -
  from assms have i: "i < length (commands st)"
    using find_cmd_Some [of Uhelp "commands st" i] by (simp add: cmd_def)
  show ?thesis
    using assms by (simp add: uhelp_def Let_def set_option_twice [OF i])
qed

theorem uhelp_sets_own_options_witness:
  "cmd demo_state Uhelp = Some 0 \<and>
   demo_match_command ''Q'' = Inr (Some uquit_command) \<and>
   options (commands (snd (uhelp demo_match_command demo_state None None)) ! 0) ''title'' =
     Some (PStr ''Help'') \<and>
   options (commands (snd (uhelp demo_match_command demo_state None None)) ! 0) ''delimiter'' =
     Some (PStr [NL]) \<and>
   options (commands (snd (uhelp demo_match_command demo_state (Some ''Q'') None)) ! 0) ''title'' =
     Some (PStr ''Help for'') \<and>
   options (commands (snd (uhelp demo_match_command demo_state (Some ''Q'') None)) ! 0) ''delimiter'' =
     Some (PStr '' '')"
proof -
  have len: "0 < length (commands demo_state)"
    by (simp add: demo_state_def demo_commands_def)
  from uhelp_sets_own_options [OF demo_cmd_Uhelp, of demo_match_command None]
  obtain v w where
    a: "snd (uhelp demo_match_command demo_state None None) =
          demo_state\<lparr>commands := (commands demo_state)[0 := (commands demo_state ! 0)
               \<lparr>options := (options (commands demo_state ! 0))
                  (''title'' \<mapsto> PStr ''Help'', ''delimiter'' \<mapsto> PStr [NL])\<rparr>]\<rparr>" and
    b: "snd (uhelp demo_match_command demo_state (Some ''Q'') None) =
          demo_state\<lparr>commands := (commands demo_state)[0 := (commands demo_state ! 0)
               \<lparr>options := (options (commands demo_state ! 0))
                  (''title'' \<mapsto> PStr ''Help for'', ''delimiter'' \<mapsto> PStr '' '')\<rparr>]\<rparr>"
    using demo_match_Q by fastforce
  show ?thesis
    by (simp add: a b demo_cmd_Uhelp demo_match_Q) (simp add: demo_state_def demo_commands_def)
qed

text \<open>
  C6. For a width above 0, \<open>settabwidth\<close> stores 4, the default, under \<^verbatim>\<open>tabwidth\<close>, whatever
  the width is, and returns \<^verbatim>\<open>None\<close>; for a width of 0 or less it returns the error
  message and leaves the session state as it was.
\<close>

theorem settabwidth_ignores_width:
  "(0 < width \<longrightarrow>
      settabwidth st width = (PNone, st\<lparr>env_vars := (env_vars st)(''tabwidth'' \<mapsto> PInt 4)\<rparr>) \<and>
      env_vars (snd (settabwidth st width)) ''tabwidth'' = Some (PInt DEFAULT_TABWIDTH)) \<and>
   (width \<le> 0 \<longrightarrow>
      settabwidth st width = (PStr ''Error, tabwidth must be greater than 0'', st))"
  by (simp add: settabwidth_def DEFAULT_TABWIDTH_def)

theorem settabwidth_ignores_width_witness:
  "(0::int) < 8 \<and>
   fst (settabwidth demo_state 8) = PNone \<and>
   env_vars (snd (settabwidth demo_state 8)) ''tabwidth'' = Some (PInt 4) \<and>
   (0::int) \<le> 0 \<and>
   settabwidth demo_state 0 = (PStr ''Error, tabwidth must be greater than 0'', demo_state)"
  using settabwidth_ignores_width [of 8 demo_state] settabwidth_ignores_width [of 0 demo_state]
  by (simp add: DEFAULT_TABWIDTH_def)

text \<open>
  C7. With no key, \<open>getitem\<close> iterates the dictionary stored under \<^verbatim>\<open>user-items\<close>, that is
  its keys, and unpacks each key into two names. For the empty dictionary it returns a
  single newline. When every key iterates into exactly two values, it returns the newline
  followed, for each key in order, by a tab, the first value, a colon and the second
  value. When some key does not iterate into exactly two values it raises: the first
  such key decides, with \<^verbatim>\<open>TypeError\<close> if it is not iterable and \<^verbatim>\<open>ValueError\<close> otherwise.
  The outcome is the same for every dictionary with the same keys, so the stored values
  are never listed. The session state is left as it was.
\<close>

theorem getitem_list_all:
  assumes "env_vars st ''user-items'' = Some (PDict kvs)"
  shows "(kvs = [] \<longrightarrow> getitem st None = (Inr (PStr [NL]), st)) \<and>
         (\<forall>ps. map py_iter (map fst kvs) = map (\<lambda>(a, b). Some [a, b]) ps \<longrightarrow>
            getitem st None =
              (Inr (PStr ([NL] @ concat (map (\<lambda>(a, b). [TAB] @ py_str a @ '':'' @ py_str b) ps))),
               st)) \<and>
         ((\<exists>k \<in> set (map fst kvs). \<forall>a b. py_iter k \<noteq> Some [a, b]) \<longrightarrow>
            (\<exists>e. getitem st None = (Inl e, st))) \<and>
         (\<forall>pre k post. map fst kvs = pre @ k # post \<and>
              (\<forall>x \<in> set pre. \<exists>a b. py_iter x = Some [a, b]) \<and>
              (\<forall>a b. py_iter k \<noteq> Some [a, b]) \<longrightarrow>
            getitem st None =
              (Inl (if py_iter k = None then Builtin TypeError else Builtin ValueError), st)) \<and>
         (\<forall>st' kvs'. env_vars st' ''user-items'' = Some (PDict kvs') \<and> map fst kvs' = map fst kvs \<longrightarrow>
            fst (getitem st' None) = fst (getitem st None))"
proof (intro conjI impI allI)
  assume "kvs = []"
  with assms show "getitem st None = (Inr (PStr [NL]), st)"
    by (simp add: getitem_def)
next
  fix ps
  assume "map py_iter (map fst kvs) = map (\<lambda>(a, b). Some [a, b]) ps"
  from getitem_loop_lists [OF this, of "[NL]"] assms
  show "getitem st None =
      (Inr (PStr ([NL] @ concat (map (\<lambda>(a, b). [TAB] @ py_str a @ '':'' @ py_str b) ps))), st)"
    by (simp add: getitem_def)
next
  assume "\<exists>k \<in> set (map fst kvs). \<forall>a b. py_iter k \<noteq> Some [a, b]"
  then obtain k where "k \<in> set (map fst kvs)" and "\<forall>a b. py_iter k \<noteq> Some [a, b]"
    by blast
  from getitem_loop_raises [OF this] obtain e where "getitem_loop (map fst kvs) [NL] = Inl e"
    by blast
  with assms show "\<exists>e. getitem st None = (Inl e, st)"
    by (simp add: getitem_def)
next
  fix pre k post
  assume h: "map fst kvs = pre @ k # post \<and>
      (\<forall>x \<in> set pre. \<exists>a b. py_iter x = Some [a, b]) \<and> (\<forall>a b. py_iter k \<noteq> Some [a, b])"
  then have "getitem_loop (map fst kvs) [NL] =
      Inl (if py_iter k = None then Builtin TypeError else Builtin ValueError)"
    using getitem_loop_first_bad [of pre k post "[NL]"] by simp
  with assms show "getitem st None =
      (Inl (if py_iter k = None then Builtin TypeError else Builtin ValueError), st)"
    by (simp add: getitem_def)
next
  fix st' :: cli_state and kvs'
  assume "env_vars st' ''user-items'' = Some (PDict kvs') \<and> map fst kvs' = map fst kvs"
  with assms show "fst (getitem st' None) = fst (getitem st None)"
    by (simp add: getitem_def)
qed

theorem getitem_list_all_witness:
  "env_vars demo_state ''user-items'' = Some (PDict []) \<and>
   getitem demo_state None = (Inr (PStr [NL]), demo_state) \<and>
   env_vars (demo_items [(PStr ''ab'', PInt 1)]) ''user-items'' = Some (PDict [(PStr ''ab'', PInt 1)]) \<and>
   map py_iter (map fst [(PStr ''ab'', PInt 1)]) = map (\<lambda>(a, b). Some [a, b]) [(PStr ''a'', PStr ''b'')] \<and>
   getitem (demo_items [(PStr ''ab'', PInt 1)]) None =
     (Inr (PStr ([NL, TAB] @ ''a:b'')), demo_items [(PStr ''ab'', PInt 1)]) \<and>
   env_vars (demo_items [(PStr ''ab'', PInt 2)]) ''user-items'' = Some (PDict [(PStr ''ab'', PInt 2)]) \<and>
   map fst [(PStr ''ab'', PInt 2)] = map fst [(PStr ''ab'', PInt 1)] \<and>
   fst (getitem (demo_items [(PStr ''ab'', PInt 2)]) None) = Inr (PStr ([NL, TAB] @ ''a:b'')) \<and>
   env_vars (demo_items [(PStr ''name'', PStr ''bob'')]) ''user-items'' =
     Some (PDict [(PStr ''name'', PStr ''bob'')]) \<and>
   (\<exists>k \<in> set (map fst [(PStr ''name'', PStr ''bob'')]). \<forall>a b. py_iter k \<noteq> Some [a, b]) \<and>
   getitem (demo_items [(PStr ''name'', PStr ''bob'')]) None =
     (Inl (Builtin ValueError), demo_items [(PStr ''name'', PStr ''bob'')]) \<and>
   env_vars (demo_items [(PStr ''ab'', PInt 1), (PInt 5, PInt 2)]) ''user-items'' =
     Some (PDict [(PStr ''ab'', PInt 1), (PInt 5, PInt 2)]) \<and>
   map fst [(PStr ''ab'', PInt 1), (PInt 5, PInt 2)] = [PStr ''ab''] @ PInt 5 # [] \<and>
   py_iter (PStr ''ab'') = Some [PStr ''a'', PStr ''b''] \<and>
   py_iter (PInt 5) = None \<and>
   getitem (demo_items [(PStr ''ab'', PInt 1), (PInt 5, PInt 2)]) None =
     (Inl (Builtin TypeError), demo_items [(PStr ''ab'', PInt 1), (PInt 5, PInt 2)])"
proof -
  have e: "env_vars demo_state ''user-items'' = Some (PDict [])"
    by (simp add: demo_state_def initial_env_vars_def)
  have i: "env_vars (demo_items kvs) ''user-items'' = Some (PDict kvs)" for kvs
    by (simp add: demo_items_def)
  have ab: "py_iter (PStr ''ab'') = Some [PStr ''a'', PStr ''b'']"
    by simp
  have m: "map py_iter (map fst [(PStr ''ab'', PInt n)]) =
      map (\<lambda>(a, b). Some [a, b]) [(PStr ''a'', PStr ''b'')]" for n
    by simp
  have name: "\<forall>a b. py_iter (PStr ''name'') \<noteq> Some [a, b]"
    by simp
  have k: "\<exists>k \<in> set (map fst [(PStr ''name'', PStr ''bob'')]). \<forall>a b. py_iter k \<noteq> Some [a, b]"
    by simp
  have s: "map fst [(PStr ''ab'', PInt 1), (PInt 5, PInt 2)] = [PStr ''ab''] @ PInt 5 # []"
    by simp
  have P: "map py_iter (map fst kvs) = map (\<lambda>(a, b). Some [a, b]) ps \<Longrightarrow>
      getitem (demo_items kvs) None =
        (Inr (PStr ([NL] @ concat (map (\<lambda>(a, b). [TAB] @ py_str a @ '':'' @ py_str b) ps))),
         demo_items kvs)" for kvs ps
    using getitem_list_all [OF i, of kvs] by blast
  have F: "map fst kvs = pre @ k # post \<Longrightarrow>
      \<forall>x \<in> set pre. \<exists>a b. py_iter x = Some [a, b] \<Longrightarrow>
      \<forall>a b. py_iter k \<noteq> Some [a, b] \<Longrightarrow>
      getitem (demo_items kvs) None =
        (Inl (if py_iter k = None then Builtin TypeError else Builtin ValueError), demo_items kvs)"
    for kvs pre k post
    using getitem_list_all [OF i, of kvs] by blast
  have V: "map fst kvs' = map fst kvs \<Longrightarrow>
      fst (getitem (demo_items kvs') None) = fst (getitem (demo_items kvs) None)" for kvs kvs'
    using getitem_list_all [OF i, of kvs] i [of kvs'] by blast
  from getitem_list_all [OF e]
  have 1: "getitem demo_state None = (Inr (PStr [NL]), demo_state)"
    by simp
  from P [OF m [of 1]]
  have 2: "getitem (demo_items [(PStr ''ab'', PInt 1)]) None =
      (Inr (PStr ([NL, TAB] @ ''a:b'')), demo_items [(PStr ''ab'', PInt 1)])"
    by (simp add: py_str_def)
  from V [of "[(PStr ''ab'', PInt 2)]" "[(PStr ''ab'', PInt 1)]"] 2
  have 3: "fst (getitem (demo_items [(PStr ''ab'', PInt 2)]) None) =
      Inr (PStr ([NL, TAB] @ ''a:b''))"
    by simp
  from F [of "[(PStr ''name'', PStr ''bob'')]" "[]" "PStr ''name''" "[]"]
  have 4: "getitem (demo_items [(PStr ''name'', PStr ''bob'')]) None =
      (Inl (Builtin ValueError), demo_items [(PStr ''name'', PStr ''bob'')])"
    by simp
  from F [of "[(PStr ''ab'', PInt 1), (PInt 5, PInt 2)]" "[PStr ''ab'']" "PInt 5" "[]"]
  have 5: "getitem (demo_items [(PStr ''ab'', PInt 1), (PInt 5, PInt 2)]) None =
      (Inl (Builtin TypeError), demo_items [(PStr ''ab'', PInt 1), (PInt 5, PInt 2)])"
    by simp
  have five: "py_iter (PInt 5) = None"
    by simp
  from e i 1 m [of 1] 2 3 k 4 s ab five 5 show ?thesis
    by (simp del: py_iter.simps)
qed

text \<open>
  C8. \<open>printfile\<close> signals every failure by raising, and returns a value only for a file
  it could read and that has a line. Without a registered command the lookup fails; on a
  path that is not a file it raises \<^verbatim>\<open>FileNotFoundError\<close> with a message naming the path; on
  an existing file with no lines it raises the \<^verbatim>\<open>ValueError\<close> of the logarithm of zero; an
  exception of \<^verbatim>\<open>open\<close> or of the read is passed on. Otherwise the value is the text of the
  lines, each behind its line number when numbers are asked for.
\<close>

theorem printfile_raises:
  "(cmd st Printfile = None \<longrightarrow>
      fst (printfile w st path line_no encoding) = Inl (Builtin LookupFailure)) \<and>
   (cmd st Printfile \<noteq> None \<and> \<not> isfile w path \<longrightarrow>
      fst (printfile w st path line_no encoding) =
        Inl (Raised FileNotFoundError (''File '' @ path @ '' does not exist''))) \<and>
   (cmd st Printfile \<noteq> None \<and> isfile w path \<and> readlines w path encoding = Inr [] \<longrightarrow>
      fst (printfile w st path line_no encoding) = Inl (Builtin ValueError)) \<and>
   (\<forall>e. cmd st Printfile \<noteq> None \<and> isfile w path \<and> readlines w path encoding = Inl e \<longrightarrow>
      fst (printfile w st path line_no encoding) = Inl e) \<and>
   (\<forall>lines. cmd st Printfile \<noteq> None \<and> isfile w path \<and>
        readlines w path encoding = Inr lines \<and> lines \<noteq> [] \<longrightarrow>
      fst (printfile w st path line_no encoding) =
        Inr (PStr (concat (map (\<lambda>(idx, line).
               line_number line_no (log10_ceil w (length lines)) idx @ line) (enumerate 0 lines))))) \<and>
   (\<forall>v. fst (printfile w st path line_no encoding) = Inr v \<longrightarrow>
      cmd st Printfile \<noteq> None \<and> isfile w path \<and>
      (\<exists>lines. readlines w path encoding = Inr lines \<and> lines \<noteq> []))"
proof (cases "cmd st Printfile")
  case None
  then show ?thesis by (simp add: printfile_def)
next
  case (Some i)
  show ?thesis
  proof (cases "isfile w path")
    case False
    with Some show ?thesis by (simp add: printfile_def Let_def)
  next
    case True
    show ?thesis
    proof (cases "readlines w path encoding")
      case (Inl e)
      with Some True show ?thesis by (simp add: printfile_def Let_def)
    next
      case (Inr lines)
      with Some True show ?thesis
        by (simp add: printfile_def Let_def printfile_loop_enumerate)
    qed
  qed
qed

theorem printfile_raises_witness:
  "cmd (demo_state\<lparr>commands := []\<rparr>) Printfile = None \<and>
   fst (printfile demo_world (demo_state\<lparr>commands := []\<rparr>) ''dir/two.txt'' True None) =
     Inl (Builtin LookupFailure) \<and>
   cmd demo_state Printfile \<noteq> None \<and>
   \<not> isfile demo_world ''nope'' \<and>
   fst (printfile demo_world demo_state ''nope'' True None) =
     Inl (Raised FileNotFoundError ''File nope does not exist'') \<and>
   isfile demo_world ''empty.txt'' \<and>
   readlines demo_world ''empty.txt'' None = Inr [] \<and>
   fst (printfile demo_world demo_state ''empty.txt'' True None) = Inl (Builtin ValueError) \<and>
   isfile demo_world ''locked.txt'' \<and>
   readlines demo_world ''locked.txt'' None = Inl (Builtin PermissionError) \<and>
   fst (printfile demo_world demo_state ''locked.txt'' True None) = Inl (Builtin PermissionError) \<and>
   isfile demo_world ''dir/two.txt'' \<and>
   readlines demo_world ''dir/two.txt'' None = Inr [''a'' @ [NL], ''b'' @ [NL]] \<and>
   [''a'' @ [NL], ''b'' @ [NL]] \<noteq> [] \<and>
   fst (printfile demo_world demo_state ''dir/two.txt'' True None) =
     Inr (PStr (''0|a'' @ [NL] @ ''1|b'' @ [NL]))"
proof -
  have n: "cmd (demo_state\<lparr>commands := []\<rparr>) Printfile = None"
    by (simp add: cmd_def)
  have c: "cmd demo_state Printfile \<noteq> None"
    by (simp add: demo_cmd_Printfile)
  have w: "\<not> isfile demo_world ''nope''" "isfile demo_world ''empty.txt''"
    "readlines demo_world ''empty.txt'' None = Inr []"
    "isfile demo_world ''locked.txt''"
    "readlines demo_world ''locked.txt'' None = Inl (Builtin PermissionError)"
    "isfile demo_world ''dir/two.txt''"
    "readlines demo_world ''dir/two.txt'' None = Inr [''a'' @ [NL], ''b'' @ [NL]]"
    "log10_ceil demo_world = ceil_log10"
    by (simp_all add: demo_world_def)
  from printfile_raises [of "demo_state\<lparr>commands := []\<rparr>" demo_world "''dir/two.txt''" True None] n
  have 1: "fst (printfile demo_world (demo_state\<lparr>commands := []\<rparr>) ''dir/two.txt'' True None) =
      Inl (Builtin LookupFailure)"
    by blast
  from printfile_raises [of demo_state demo_world "''nope''" True None] c w(1)
  have 2: "fst (printfile demo_world demo_state ''nope'' True None) =
      Inl (Raised FileNotFoundError ''File nope does not exist'')"
    by simp
  from printfile_raises [of demo_state demo_world "''empty.txt''" True None] c w(2,3)
  have 3: "fst (printfile demo_world demo_state ''empty.txt'' True None) = Inl (Builtin ValueError)"
    by blast
  from printfile_raises [of demo_state demo_world "''locked.txt''" True None] c w(4,5)
  have 4: "fst (printfile demo_world demo_state ''locked.txt'' True None) =
      Inl (Builtin PermissionError)"
    by blast
  have "fst (printfile demo_world demo_state ''dir/two.txt'' True None) =
      Inr (PStr (concat (map (\<lambda>(idx, line).
         line_number True (log10_ceil demo_world (length [''a'' @ [NL], ''b'' @ [NL]])) idx @ line)
         (enumerate 0 [''a'' @ [NL], ''b'' @ [NL]]))))"
    using printfile_raises [of demo_state demo_world "''dir/two.txt''" True None] c w(6,7)
    by blast
  then have 5: "fst (printfile demo_world demo_state ''dir/two.txt'' True None) =
      Inr (PStr (''0|a'' @ [NL] @ ''1|b'' @ [NL]))"
    using demo_two_lines by (simp add: w(8))
  from n 1 c w 2 3 4 5 show ?thesis
    by simp
qed

text \<open>
  C9. \<open>setname\<close> returns its argument, and \<open>getname\<close> returns that name in every later
  state whose \<^verbatim>\<open>username\<close> entry is the one \<open>setname\<close> left.
\<close>

theorem setname_getname:
  "fst (setname st name) = PStr name \<and>
   (\<forall>st'. env_vars st' ''username'' = env_vars (snd (setname st name)) ''username'' \<longrightarrow>
      fst (getname st') = PStr name)"
  by (simp add: setname_def getname_def Let_def)

theorem setname_getname_witness:
  "fst (setname demo_state ''bob'') = PStr ''bob'' \<and>
   env_vars (snd (setage (snd (setname demo_state ''bob'')) 30)) ''username'' =
     env_vars (snd (setname demo_state ''bob'')) ''username'' \<and>
   fst (getname (snd (setage (snd (setname demo_state ''bob'')) 30))) = PStr ''bob''"
  using setname_getname [of demo_state "''bob''"]
  by (simp add: setage_def)

text \<open>
  C10. When the environment store has no \<^verbatim>\<open>age\<close> entry, or the entry is \<^verbatim>\<open>None\<close>, \<open>getage\<close>
  returns the empty string, which is no integer; otherwise it returns the stored value.
  It never changes the session state.
\<close>

theorem getage_returns:
  "((env_vars st ''age'' = None \<or> env_vars st ''age'' = Some PNone) \<longrightarrow>
      fst (getage st) = PStr [] \<and> (\<forall>n. fst (getage st) \<noteq> PInt n)) \<and>
   (\<forall>v. env_vars st ''age'' = Some v \<and> v \<noteq> PNone \<longrightarrow> fst (getage st) = v) \<and>
   snd (getage st) = st"
  by (auto simp add: getage_def split: option.split)

theorem getage_returns_witness:
  "env_vars demo_state ''age'' = Some PNone \<and>
   fst (getage demo_state) = PStr [] \<and>
   env_vars (snd (setage demo_state 30)) ''age'' = Some (PInt 30) \<and>
   PInt 30 \<noteq> PNone \<and>
   fst (getage (snd (setage demo_state 30))) = PInt 30"
  using getage_returns [of demo_state] getage_returns [of "snd (setage demo_state 30)"]
  by (simp add: demo_state_def initial_env_vars_def setage_def)

end
